theory Spec2Isabelle
  imports Main
begin

section \<open>Python values used by the plugin\<close>

text \<open>
  The plugin (\<^verbatim>\<open>archiveviewer/zip.py\<close>, class \<^verbatim>\<open>ZipRenderer\<close>) is a set of callbacks of
  the Trac framework.  Framework objects are modelled by the fields the plugin reads,
  framework functions by parameters collected in the record \<open>env\<close> further down.
\<close>

text \<open>
  \<^verbatim>\<open>trac.resource.Resource\<close>: \<^verbatim>\<open>Resource(realm, id)\<close> leaves version and parent \<^verbatim>\<open>None\<close>;
  \<^verbatim>\<open>r.child(realm, id, version)\<close> is \<^verbatim>\<open>Resource(realm, id, version, parent=r)\<close>;
  \<^verbatim>\<open>r(version=None)\<close> copies \<open>r\<close> with the version cleared.
\<close>

datatype resource =
  Resource (realm: "string option") (res_id: "string option")
           (version: "string option") (parent: "resource option")

definition child :: "resource \<Rightarrow> string \<Rightarrow> string \<Rightarrow> string option \<Rightarrow> resource" where
  "child r rlm i ver = Resource (Some rlm) (Some i) ver (Some r)"

definition without_version :: "resource \<Rightarrow> resource" where
  "without_version r = Resource (realm r) (res_id r) None (parent r)"

text \<open>The values found in \<^verbatim>\<open>req.args\<close> and in keyword arguments.\<close>

datatype pyval = PNone | PStr string | PRes resource

fun truthy :: "pyval \<Rightarrow> bool" where
  "truthy PNone = False"
| "truthy (PStr s) = (s \<noteq> [])"
| "truthy (PRes r) = True"

definition of_opt :: "string option \<Rightarrow> pyval" where
  "of_opt v = (case v of None \<Rightarrow> PNone | Some s \<Rightarrow> PStr s)"

definition newline :: char where
  "newline = CHR 0x0A"

section \<open>Regular expressions as \<^verbatim>\<open>re.match\<close> runs them\<close>

text \<open>
  The constructs the two patterns of \<^verbatim>\<open>match_request\<close> use: a literal string, \<^verbatim>\<open>.\<close>
  (any character but a newline), a negated class \<^verbatim>\<open>[^...]\<close> (any character not listed, a
  newline included), sequence, alternative, the greedy \<^verbatim>\<open>?\<close>, \<^verbatim>\<open>*\<close> and \<^verbatim>\<open>+\<close>, a
  numbered capturing group, and \<^verbatim>\<open>$\<close> (the end of the string, or just before a newline
  that ends it).
\<close>

datatype re =
    Lit string
  | Dot
  | NotIn "char list"
  | Seq re re
  | Alt re re
  | Opt re
  | Star re
  | Plus re
  | Grp nat re
  | Eol

type_synonym groups = "nat \<rightharpoonup> string"

fun weight :: "re \<Rightarrow> nat" where
  "weight (Lit w) = 1"
| "weight Dot = 1"
| "weight (NotIn cs) = 1"
| "weight (Seq a b) = Suc (weight a + weight b)"
| "weight (Alt a b) = Suc (weight a + weight b)"
| "weight (Opt a) = Suc (weight a)"
| "weight (Star a) = Suc (weight a)"
| "weight (Plus a) = Suc (Suc (weight a))"
| "weight (Grp n a) = Suc (weight a)"
| "weight Eol = 1"

text \<open>
  \<open>rmatch r s g\<close> lists, in the order in which a backtracking matcher tries them, every
  way to match \<open>r\<close> at the start of \<open>s\<close>: the input left over and the groups captured so
  far.  A greedy operator lists the longer matches first; an iteration of \<^verbatim>\<open>*\<close> that
  consumes nothing is not repeated.
\<close>

function rmatch :: "re \<Rightarrow> string \<Rightarrow> groups \<Rightarrow> (string \<times> groups) list" where
  "rmatch (Lit w) s g = (if take (length w) s = w then [(drop (length w) s, g)] else [])"
| "rmatch Dot s g = (case s of [] \<Rightarrow> [] | c # t \<Rightarrow> if c = newline then [] else [(t, g)])"
| "rmatch (NotIn cs) s g = (case s of [] \<Rightarrow> [] | c # t \<Rightarrow> if c \<in> set cs then [] else [(t, g)])"
| "rmatch (Seq a b) s g = concat (map (\<lambda>(s', g'). rmatch b s' g') (rmatch a s g))"
| "rmatch (Alt a b) s g = rmatch a s g @ rmatch b s g"
| "rmatch (Opt a) s g = rmatch a s g @ [(s, g)]"
| "rmatch (Star a) s g =
     concat (map (\<lambda>(s', g'). if length s' < length s then rmatch (Star a) s' g' else [])
                 (rmatch a s g)) @ [(s, g)]"
| "rmatch (Plus a) s g = concat (map (\<lambda>(s', g'). rmatch (Star a) s' g') (rmatch a s g))"
| "rmatch (Grp n a) s g =
     map (\<lambda>(s', g'). (s', g'(n \<mapsto> take (length s - length s') s))) (rmatch a s g)"
| "rmatch Eol s g = (if s = [] \<or> s = [newline] then [(s, g)] else [])"
  by pat_completeness auto
termination
  by (relation "inv_image (less_than <*lex*> less_than) (\<lambda>(r, s, g). (weight r, length s))")
     auto

text \<open>\<^verbatim>\<open>re.match(pattern, string)\<close>: the first way to match, or \<^verbatim>\<open>None\<close>.\<close>

definition re_match :: "re \<Rightarrow> string \<Rightarrow> groups option" where
  "re_match r s = (case rmatch r s Map.empty of [] \<Rightarrow> None | (s', g) # rest \<Rightarrow> Some g)"

definition seqs :: "re list \<Rightarrow> re" where
  "seqs rs = foldr Seq rs Eol"


section \<open>The request\<close>

text \<open>
  \<^verbatim>\<open>trac.web.api.Request\<close>, as far as the plugin reads and writes it: the path, the
  argument dictionary \<^verbatim>\<open>req.args\<close>, the request headers, the permission cache
  \<^verbatim>\<open>req.perm\<close>, the URL builder \<^verbatim>\<open>req.href\<close>, and what the handler sends: the status,
  the response headers in the order sent, whether \<^verbatim>\<open>end_headers\<close> was called, the
  stylesheets and links added to the page, and the body \<^verbatim>\<open>req._response\<close>.
\<close>

type_synonym kwargs = "string \<rightharpoonup> pyval"
type_synonym href = "string list \<Rightarrow> kwargs \<Rightarrow> string"

datatype hval = HInt nat | HStr string

text \<open>
  A file object and the \<^verbatim>\<open>zipfile\<close> library.  Reading the ZIP format is the library's
  work and is taken as given: a file object carries its bytes and, when these bytes are a
  ZIP archive, the members of the archive in the order of its directory, each with its
  \<^verbatim>\<open>ZipInfo\<close> (\<^verbatim>\<open>filename\<close>, \<^verbatim>\<open>file_size\<close>, \<^verbatim>\<open>date_time\<close>) and the file object that
  \<^verbatim>\<open>ZipFile.open\<close> gives for it.  \<open>members f = None\<close> is a file that is no archive:
  \<^verbatim>\<open>ZipFile(f)\<close> raises \<^verbatim>\<open>BadZipFile\<close>.
\<close>

record zipinfo =
  filename :: string
  file_size :: nat
  date_time :: "nat \<times> nat \<times> nat \<times> nat \<times> nat \<times> nat"

datatype fileobj = Fileobj (data: string) (members: "(zipinfo \<times> fileobj) list option")

type_synonym zipfile = "(zipinfo \<times> fileobj) list"

record request =
  path_info :: string
  args :: "string \<rightharpoonup> pyval"
  get_header :: "string \<Rightarrow> string option"
  perm :: "pyval \<Rightarrow> string \<Rightarrow> bool"
  req_href :: href
  status :: "nat option"
  out_headers :: "(string \<times> hval) list"
  headers_ended :: bool
  stylesheets :: "string list"
  links :: "(string \<times> string \<times> string \<times> string option) list"
  response :: "(fileobj \<times> nat) option"

section \<open>Exceptions and the framework's services\<close>

text \<open>
  Every exception the modelled code can raise is a value; a method that can raise returns
  \<open>error + 'a\<close> with \<open>Inl\<close> for the exception.  \<^verbatim>\<open>ResourceNotFound(message, title)\<close>
  carries its two arguments, \<^verbatim>\<open>RequestDone\<close> is the exception by which a handler that
  has sent its own response ends.
\<close>

datatype error =
    ResourceNotFound string "string option"
  | TracError string
  | PermissionError string
  | KeyError string
  | AttributeError string
  | UnboundLocalError string
  | ValueError string
  | TypeError string
  | BadZipFile
  | RequestDone

text \<open>
  \<^verbatim>\<open>trac.attachment.Attachment\<close>: the fields the plugin copies, the file path, and what
  \<^verbatim>\<open>open()\<close> gives.
\<close>

record attachment =
  att_filename :: "string option"
  att_parent_realm :: "string option"
  att_parent_id :: "string option"
  att_description :: string
  att_size :: nat
  att_date :: string
  att_author :: string
  att_ipnr :: "string option"
  att_path :: string
  att_open :: "error + fileobj"

text \<open>A repository node: \<^verbatim>\<open>created_rev\<close>, \<^verbatim>\<open>kind\<close>, \<^verbatim>\<open>content_length\<close>, \<^verbatim>\<open>get_content()\<close>.\<close>

record node =
  created_rev :: string
  kind :: string
  content_length :: "nat option"
  get_content :: fileobj

type_synonym repos = string

text \<open>
  The framework functions the plugin calls are parameters of the model:
  \<^item> \<open>Attachment\<close>: the constructor \<^verbatim>\<open>Attachment(env, resource)\<close>, which raises
    \<^verbatim>\<open>ResourceNotFound\<close> for an attachment that is not in the database;
  \<^item> \<open>os_path_exists\<close>: \<^verbatim>\<open>os.path.exists\<close>;
  \<^item> \<open>trac_get_resource_url\<close>: the module-level \<^verbatim>\<open>trac.resource.get_resource_url(env, resource, href, **kwargs)\<close>;
  \<^item> \<open>Href_empty\<close>: the URL builder \<^verbatim>\<open>Href('')\<close>; \<open>unicode_unquote\<close>;
  \<^item> \<open>get_repository_by_path\<close>: \<^verbatim>\<open>RepositoryManager(env).get_repository_by_path\<close>, giving
    the repository name, the repository (or \<^verbatim>\<open>None\<close>) and the path inside it;
  \<^item> \<open>get_existing_node\<close>: \<^verbatim>\<open>get_existing_node(req, repos, path, rev)\<close>, with \<open>Inl (Inl msg)\<close>
    for \<^verbatim>\<open>NoSuchChangeset(msg)\<close> and \<open>Inl (Inr e)\<close> for any other exception;
  \<^item> \<open>get_changeset\<close>: \<^verbatim>\<open>repos.get_changeset(rev)\<close>;
  \<^item> \<open>get_mimetype\<close>, \<open>get_charset\<close>, \<open>preview_data\<close>: the methods of \<^verbatim>\<open>Mimeview(env)\<close>;
  \<^item> \<open>get_path_links\<close>: \<^verbatim>\<open>trac.versioncontrol.web_ui.util.get_path_links\<close>;
  \<^item> \<open>render_unsafe_content\<close>: the option of that name in section \<^verbatim>\<open>[attachment]\<close>;
  \<^item> \<open>http_date\<close>: \<^verbatim>\<open>http_date(to_datetime(d))\<close> for a valid date \<open>d\<close>.
\<close>

record env =
  Attachment :: "pyval \<Rightarrow> error + attachment"
  os_path_exists :: "string \<Rightarrow> bool"
  trac_get_resource_url :: "resource \<Rightarrow> href \<Rightarrow> kwargs \<Rightarrow> string"
  Href_empty :: href
  unicode_unquote :: "string \<Rightarrow> string"
  get_repository_by_path :: "string option \<Rightarrow> string \<times> repos option \<times> string"
  get_existing_node :: "repos \<Rightarrow> string \<Rightarrow> string option \<Rightarrow> (string + error) + node"
  get_changeset :: "repos \<Rightarrow> string \<Rightarrow> string"
  get_mimetype :: "string \<Rightarrow> string \<Rightarrow> string option"
  get_charset :: "string \<Rightarrow> string \<Rightarrow> string"
  preview_data :: "pyval \<Rightarrow> fileobj \<Rightarrow> nat \<Rightarrow> string option \<Rightarrow> string \<Rightarrow> string \<Rightarrow> string"
  get_path_links :: "href \<Rightarrow> string \<Rightarrow> string \<Rightarrow> string option \<Rightarrow> (string \<times> string) list"
  render_unsafe_content :: bool
  http_date :: "nat \<times> nat \<times> nat \<times> nat \<times> nat \<times> nat \<Rightarrow> string"

section \<open>Registration: interfaces, realms, link resolvers, quality ratio\<close>

datatype interface =
    IResourceManager | IHTMLPreviewRenderer | IRequestHandler
  | IWikiSyntaxProvider | IRequestFilter | ITemplateProvider

definition implements :: "interface list" where
  "implements = [IResourceManager, IHTMLPreviewRenderer, IRequestHandler,
                 IWikiSyntaxProvider, IRequestFilter, ITemplateProvider]"

text \<open>\<^verbatim>\<open>s.split(c, n)\<close>: split at the first \<open>n\<close> occurrences of \<open>c\<close>.\<close>

fun py_split_max :: "nat \<Rightarrow> char \<Rightarrow> string \<Rightarrow> string list" where
  "py_split_max n c [] = [[]]"
| "py_split_max n c (x # xs) =
     (if x = c \<and> 0 < n then [] # py_split_max (n - 1) c xs
      else (case py_split_max n c xs of
              [] \<Rightarrow> [[x]]
            | y # ys \<Rightarrow> (x # y) # ys))"

text \<open>
  The wiki formatter: \<^verbatim>\<open>formatter.split_link\<close> and \<^verbatim>\<open>formatter.href\<close>.  What
  \<^verbatim>\<open>_format_link\<close> returns is the label itself or \<^verbatim>\<open>tag.a(label, href=...)\<close>.
\<close>

record formatter =
  split_link :: "string \<Rightarrow> string \<times> string \<times> string"
  fmt_href :: href

datatype markup = Text string | A_tag string string

text \<open>
  \<^verbatim>\<open>_format_link\<close> (lines 40 to 56).  \<^verbatim>\<open>link.split(':', 2)\<close> has at most three parts,
  so \<^verbatim>\<open>len(ids) == 3\<close> is the three-element pattern.  With two parts after the parent
  realm the resource is \<^verbatim>\<open>None\<close>, and the framework's \<^verbatim>\<open>get_resource_url\<close> fails on
  \<^verbatim>\<open>resource.realm\<close>.
\<close>

definition format_link :: "env \<Rightarrow> formatter \<Rightarrow> string \<Rightarrow> string \<Rightarrow> string \<Rightarrow> error + markup" where
  "format_link e fm ns target label =
     (case split_link fm target of (link, params, fragment) \<Rightarrow>
        (case py_split_max 2 CHR '':'' link of
           [localid, parent_realm, rest] \<Rightarrow>
             (let ids = py_split_max 2 CHR '':'' rest;
                  res =
                    (case ids of
                       [a, b, c] \<Rightarrow>
                         Some (child (child (Resource (Some b) (Some c) None None) parent_realm a None)
                                     ''zip'' localid None)
                     | [a] \<Rightarrow>
                         Some (child (Resource (Some parent_realm) (Some a) None None)
                                     ''zip'' localid None)
                     | _ \<Rightarrow> None)
              in case res of
                   None \<Rightarrow> Inl (AttributeError ''realm'')
                 | Some r \<Rightarrow>
                     Inr (A_tag label (trac_get_resource_url e r (fmt_href fm) Map.empty @ fragment)))
         | _ \<Rightarrow> Inr (Text label)))"

definition get_link_resolvers ::
  "env \<Rightarrow> (string \<times> (formatter \<Rightarrow> string \<Rightarrow> string \<Rightarrow> string \<Rightarrow> error + markup)) list" where
  "get_link_resolvers e = [(''raw-zip'', format_link e), (''zip'', format_link e)]"

definition get_resource_realms :: "string list" where
  "get_resource_realms = [''zip'', ''raw-zip'']"

definition get_quality_ratio :: "string \<Rightarrow> nat" where
  "get_quality_ratio mimetype =
     (if mimetype \<in> set [''application/zip'', ''application/x-zip-compressed''] then 8 else 0)"

section \<open>\<^verbatim>\<open>get_resource_url\<close> and \<^verbatim>\<open>resource_exists\<close>\<close>

text \<open>
  Lines 70 to 80.  \<^verbatim>\<open>format_ in ['raw']\<close> is equality with \<^verbatim>\<open>'raw'\<close>; \<^verbatim>\<open>kwargs.pop\<close>
  removes the key; \<^verbatim>\<open>resource.id or ''\<close> turns \<^verbatim>\<open>None\<close> into the empty string.
\<close>

definition get_resource_url :: "env \<Rightarrow> resource \<Rightarrow> href \<Rightarrow> kwargs \<Rightarrow> string option" where
  "get_resource_url e resource hr kw =
     (case parent resource of
        None \<Rightarrow> None
      | Some p \<Rightarrow>
          (let format' = kw ''format'';
               raw = (format' = Some (PStr ''raw''));
               kw' = (if raw then kw(''format'' := None) else kw);
               prefix = (if raw then ''raw'' @ ''-zip'' else ''zip'');
               parent_href =
                 unicode_unquote e (trac_get_resource_url e (without_version p) (Href_empty e) Map.empty)
           in Some (hr [prefix,
                        parent_href @ ''!/'' @ (case res_id resource of None \<Rightarrow> [] | Some i \<Rightarrow> i)]
                       kw')))"

text \<open>
  Lines 97 to 102.  Only \<^verbatim>\<open>ResourceNotFound\<close> is caught; any other exception of the
  constructor propagates.
\<close>

definition resource_exists :: "env \<Rightarrow> resource \<Rightarrow> error + bool" where
  "resource_exists e resource =
     (case Attachment e (case parent resource of None \<Rightarrow> PNone | Some p \<Rightarrow> PRes p) of
        Inl (ResourceNotFound m t) \<Rightarrow> Inr False
      | Inl other \<Rightarrow> Inl other
      | Inr a \<Rightarrow> Inr (os_path_exists e (att_path a)))"

section \<open>\<^verbatim>\<open>match_request\<close>\<close>

text \<open>
  \<^verbatim>\<open>r'/(raw-)?zip(?:/zip)*/attachment/([^/]+)/([^!]*)/([^/!]+)(!/.+)?(@.+)?$'\<close>
\<close>

definition re_attachment :: re where
  "re_attachment = seqs
     [Lit ''/'', Opt (Grp 1 (Lit ''raw-'')), Lit ''zip'', Star (Lit ''/zip''),
      Lit ''/attachment/'', Grp 2 (Plus (NotIn ''/'')), Lit ''/'',
      Grp 3 (Star (NotIn ''!'')), Lit ''/'', Grp 4 (Plus (NotIn ''/!'')),
      Opt (Grp 5 (Seq (Lit ''!/'') (Plus Dot))), Opt (Grp 6 (Seq (Lit ''@'') (Plus Dot)))]"

text \<open>
  \<^verbatim>\<open>r'/(raw-)?zip(?:/zip)*/(export|browser|file)/([^!]+)(!/[^@]+)?(@.+)?$'\<close>
\<close>

definition re_browser :: re where
  "re_browser = seqs
     [Lit ''/'', Opt (Grp 1 (Lit ''raw-'')), Lit ''zip'', Star (Lit ''/zip''), Lit ''/'',
      Grp 2 (Alt (Lit ''export'') (Alt (Lit ''browser'') (Lit ''file''))), Lit ''/'',
      Grp 3 (Plus (NotIn ''!'')), Opt (Grp 4 (Seq (Lit ''!/'') (Plus (NotIn ''@'')))),
      Opt (Grp 5 (Seq (Lit ''@'') (Plus Dot)))]"

text \<open>
  \<^verbatim>\<open>if rev: req.args['rev'] = rev[1:]\<close>: a group that did not take part in the match is
  \<^verbatim>\<open>None\<close>, and the entry is then left as it was.
\<close>

definition store_rev :: "string option \<Rightarrow> (string \<rightharpoonup> pyval) \<Rightarrow> (string \<rightharpoonup> pyval)" where
  "store_rev rv a =
     (case rv of
        None \<Rightarrow> a
      | Some r \<Rightarrow> if r \<noteq> [] then a(''rev'' \<mapsto> PStr (drop 1 r)) else a)"

text \<open>
  The result is \<open>Some True\<close> for \<^verbatim>\<open>return True\<close> and \<open>None\<close> where the method falls off
  its end; the request is returned with its updated \<^verbatim>\<open>args\<close>.
\<close>

definition match_request :: "request \<Rightarrow> bool option \<times> request" where
  "match_request req =
     (case re_match re_attachment (path_info req) of
        Some g \<Rightarrow>
          (Some True,
           req\<lparr>args := store_rev (g 6)
              ((args req)(''format'' := Some (of_opt (g 1)), ''path'' := Some (of_opt (g 5)),
                 ''attachment'' :=
                    Some (PRes (Resource (Some ''attachment'') (g 4) None
                                  (Some (Resource (g 2) (g 3) None None))))))\<rparr>)
      | None \<Rightarrow>
          (case re_match re_browser (path_info req) of
             Some g \<Rightarrow>
               (Some True,
                req\<lparr>args := store_rev (g 5)
                   ((args req)(''format'' := Some (of_opt (g 1)), ''path'' := Some (of_opt (g 4)),
                      ''browser'' := Some (PRes (Resource (g 2) (g 3) None None))))\<rparr>)
           | None \<Rightarrow> (None, req)))"

section \<open>\<^verbatim>\<open>process_request\<close>: helpers\<close>

text \<open>\<^verbatim>\<open>req.args[key]\<close> raises \<^verbatim>\<open>KeyError\<close> for a missing key; \<^verbatim>\<open>req.args.get(key, None)\<close> does not.\<close>

definition args_item :: "request \<Rightarrow> string \<Rightarrow> error + pyval" where
  "args_item req k = (case args req k of None \<Rightarrow> Inl (KeyError k) | Some v \<Rightarrow> Inr v)"

definition args_get :: "request \<Rightarrow> string \<Rightarrow> pyval" where
  "args_get req k = (case args req k of None \<Rightarrow> PNone | Some v \<Rightarrow> v)"

text \<open>\<^verbatim>\<open>a or b\<close>.\<close>

definition py_or :: "pyval \<Rightarrow> pyval \<Rightarrow> pyval" where
  "py_or a b = (if truthy a then a else b)"

text \<open>\<^verbatim>\<open>resource.id\<close>: only a \<^verbatim>\<open>Resource\<close> has the attribute.\<close>

definition resource_id :: "pyval \<Rightarrow> error + string option" where
  "resource_id v = (case v of PRes r \<Rightarrow> Inr (res_id r) | _ \<Rightarrow> Inl (AttributeError ''id''))"

text \<open>\<^verbatim>\<open>str.lower()\<close> on ASCII letters.\<close>

definition lower_char :: "char \<Rightarrow> char" where
  "lower_char c =
     (let n = (of_char c :: nat) in if 65 \<le> n \<and> n \<le> 90 then char_of (n + 32) else c)"

definition lower :: "string \<Rightarrow> string" where
  "lower s = map lower_char s"

text \<open>\<^verbatim>\<open>s.split(c)\<close> and the list \<^verbatim>\<open>[e.lstrip('/') for e in name.split('!')]\<close> of line 193.\<close>

fun py_split :: "char \<Rightarrow> string \<Rightarrow> string list" where
  "py_split c [] = [[]]"
| "py_split c (x # xs) =
     (if x = c then [] # py_split c xs
      else (case py_split c xs of
              [] \<Rightarrow> [[x]]
            | y # ys \<Rightarrow> (x # y) # ys))"

definition elements :: "string \<Rightarrow> string list" where
  "elements name = map (dropWhile (\<lambda>c. c = CHR ''/'')) (py_split CHR ''!'' name)"

text \<open>\<^verbatim>\<open>sub in s\<close> and \<^verbatim>\<open>s.endswith('/')\<close>.\<close>

fun contains :: "string \<Rightarrow> string \<Rightarrow> bool" where
  "contains sub [] = (sub = [])"
| "contains sub (c # cs) = (take (length sub) (c # cs) = sub \<or> contains sub cs)"

definition ends_with_slash :: "string \<Rightarrow> bool" where
  "ends_with_slash s = (s \<noteq> [] \<and> last s = CHR ''/'')"

text \<open>
  \<^verbatim>\<open>ZipFile(fileobj)\<close>, \<^verbatim>\<open>infolist()\<close>, \<^verbatim>\<open>getinfo(name)\<close> and \<^verbatim>\<open>open(name)\<close>.  The library
  keeps a dictionary from names to members that a later member of the same name
  overwrites, so a name denotes the last member that bears it; a name that no member
  bears raises \<^verbatim>\<open>KeyError\<close>.
\<close>

definition ZipFile :: "fileobj \<Rightarrow> error + zipfile" where
  "ZipFile f = (case members f of None \<Rightarrow> Inl BadZipFile | Some ms \<Rightarrow> Inr ms)"

definition infolist :: "zipfile \<Rightarrow> zipinfo list" where
  "infolist z = map fst z"

definition find_member :: "zipfile \<Rightarrow> string \<Rightarrow> (zipinfo \<times> fileobj) option" where
  "find_member z name =
     (case filter (\<lambda>m. filename (fst m) = name) z of
        [] \<Rightarrow> None
      | x # xs \<Rightarrow> Some (last (x # xs)))"

definition getinfo :: "zipfile \<Rightarrow> string \<Rightarrow> error + zipinfo" where
  "getinfo z name = (case find_member z name of None \<Rightarrow> Inl (KeyError name) | Some m \<Rightarrow> Inr (fst m))"

definition zip_open :: "zipfile \<Rightarrow> string \<Rightarrow> error + fileobj" where
  "zip_open z name = (case find_member z name of None \<Rightarrow> Inl (KeyError name) | Some m \<Rightarrow> Inr (snd m))"

text \<open>\<^verbatim>\<open>datetime(y, m, d, hh, mm, ss)\<close> raises \<^verbatim>\<open>ValueError\<close> outside the calendar.\<close>

definition leap :: "nat \<Rightarrow> bool" where
  "leap y = (y mod 4 = 0 \<and> (y mod 100 \<noteq> 0 \<or> y mod 400 = 0))"

definition days_in_month :: "nat \<Rightarrow> nat \<Rightarrow> nat" where
  "days_in_month y m =
     (if m = 2 then (if leap y then 29 else 28)
      else if m = 4 \<or> m = 6 \<or> m = 9 \<or> m = 11 then 30 else 31)"

definition datetime ::
  "nat \<times> nat \<times> nat \<times> nat \<times> nat \<times> nat \<Rightarrow> error + nat \<times> nat \<times> nat \<times> nat \<times> nat \<times> nat" where
  "datetime t =
     (case t of (y, m, d, hh, mm, ss) \<Rightarrow>
        if 1 \<le> y \<and> y \<le> 9999 \<and> 1 \<le> m \<and> m \<le> 12 \<and> 1 \<le> d \<and> d \<le> days_in_month y m
           \<and> hh \<le> 23 \<and> mm \<le> 59 \<and> ss \<le> 59
        then Inr t else Inl (ValueError ''datetime''))"

text \<open>
  The error message of lines 200 and 234:
  \<^verbatim>\<open>_("Attchment '%(title)s' does not exist.", title=name)\<close> with the title
  \<^verbatim>\<open>_('Invalid filename in Zip')\<close>.
\<close>

definition not_in_zip :: "string \<Rightarrow> error" where
  "not_in_zip name =
     ResourceNotFound (''Attchment '' @ [CHR 0x27] @ name @ [CHR 0x27] @ '' does not exist.'')
                      (Some ''Invalid filename in Zip'')"

section \<open>\<^verbatim>\<open>process_request\<close>: lines 152 to 190\<close>

datatype module = BrowserModule | AttachmentModule

text \<open>
  Lines 158 to 160: a request with no inner path that is no XMLHttpRequest is handed to
  the framework's own module, after \<^verbatim>\<open>req.args['path'] = resource.id\<close>.
\<close>

definition delegate :: "request \<Rightarrow> pyval \<Rightarrow> pyval \<Rightarrow> (error + module) \<times> request" where
  "delegate req resource browser =
     (case resource_id resource of
        Inl err \<Rightarrow> (Inl err, req)
      | Inr i \<Rightarrow>
          (Inr (if truthy browser then BrowserModule else AttachmentModule),
           req\<lparr>args := (args req)(''path'' := Some (of_opt i))\<rparr>))"

text \<open>
  Lines 162 to 164.  The local \<^verbatim>\<open>rev\<close> is \<^verbatim>\<open>None\<close> or a string from here on:
  \<^verbatim>\<open>rev.lower()\<close> fails on a value that is neither.
\<close>

definition normal_rev :: "request \<Rightarrow> error + string option" where
  "normal_rev req =
     (case args_get req ''rev'' of
        PNone \<Rightarrow> Inr None
      | PStr s \<Rightarrow> if s \<noteq> [] \<and> lower s \<in> set ['''', ''head''] then Inr None else Inr (Some s)
      | PRes r \<Rightarrow> Inl (AttributeError ''lower''))"

text \<open>
  The local variables after line 185.  \<^verbatim>\<open>attachment\<close> is the \<^verbatim>\<open>Attachment\<close> object of
  line 167 in the first branch and still the value read from \<^verbatim>\<open>req.args\<close> otherwise;
  \<^verbatim>\<open>reponame\<close>, \<^verbatim>\<open>repos\<close> and \<^verbatim>\<open>path\<close> are bound by line 173 and \<^verbatim>\<open>node\<close> by line 179,
  in the second branch only.
\<close>

datatype att_local = Att_obj attachment | Att_val pyval

record source =
  s_attachment :: att_local
  s_fileobj :: fileobj
  s_repo :: "(string \<times> repos option \<times> string) option"
  s_node :: "node option"

definition open_attachment :: "env \<Rightarrow> request \<Rightarrow> pyval \<Rightarrow> error + source" where
  "open_attachment e req attachment =
     (if \<not> perm req attachment ''ATTACHMENT_VIEW'' then Inl (PermissionError ''ATTACHMENT_VIEW'')
      else case Attachment e attachment of
             Inl err \<Rightarrow> Inl err
           | Inr a \<Rightarrow>
               (case att_open a of
                  Inl err \<Rightarrow> Inl err
                | Inr f \<Rightarrow>
                    Inr \<lparr>s_attachment = Att_obj a, s_fileobj = f, s_repo = None, s_node = None\<rparr>))"

definition open_browser ::
  "env \<Rightarrow> request \<Rightarrow> pyval \<Rightarrow> pyval \<Rightarrow> string option \<Rightarrow> error + source" where
  "open_browser e req attachment browser rv =
     (if \<not> perm req browser ''FILE_VIEW'' then Inl (PermissionError ''FILE_VIEW'')
      else case resource_id browser of
             Inl err \<Rightarrow> Inl err
           | Inr i \<Rightarrow>
               (case get_repository_by_path e i of (reponame, repos, path) \<Rightarrow>
                  (case repos of
                     None \<Rightarrow>
                       if reponame \<noteq> []
                       then Inl (ResourceNotFound
                                   (''Repository '' @ [CHR 0x27] @ reponame @ [CHR 0x27] @ '' not found'')
                                   None)
                       else Inl (UnboundLocalError ''node'')
                   | Some rp \<Rightarrow>
                       (case get_existing_node e rp path rv of
                          Inl (Inl msg) \<Rightarrow>
                            Inl (ResourceNotFound msg (Some ''Invalid changeset number''))
                        | Inl (Inr err) \<Rightarrow> Inl err
                        | Inr nd \<Rightarrow>
                            Inr \<lparr>s_attachment = Att_val attachment, s_fileobj = get_content nd,
                                 s_repo = Some (reponame, repos, path), s_node = Some nd\<rparr>))))"

text \<open>Lines 165 to 185; \<^verbatim>\<open>resource\<close> is \<open>attachment\<close> in the first branch and \<open>browser\<close> in the second.\<close>

definition open_source ::
  "env \<Rightarrow> request \<Rightarrow> pyval \<Rightarrow> pyval \<Rightarrow> string option \<Rightarrow> error + source" where
  "open_source e req attachment browser rv =
     (if truthy attachment then open_attachment e req attachment
      else if truthy browser then open_browser e req attachment browser rv
      else Inl (TracError ''Not Implemented''))"

text \<open>Line 188: \<^verbatim>\<open>name = (req.args['path'] or '')[2:]\<close>.\<close>

definition inner_name :: "request \<Rightarrow> error + string" where
  "inner_name req =
     (case args_item req ''path'' of
        Inl err \<Rightarrow> Inl err
      | Inr PNone \<Rightarrow> Inr []
      | Inr (PStr s) \<Rightarrow> Inr (drop 2 s)
      | Inr (PRes r) \<Rightarrow> Inl (TypeError ''subscript''))"

text \<open>
  Line 190: \<^verbatim>\<open>self.log.info('ZIP: %s' % attachment.resource.id)\<close>.  The argument is
  evaluated whatever the log level, and only an \<^verbatim>\<open>Attachment\<close> object has the attribute
  \<^verbatim>\<open>resource\<close>.
\<close>

definition log_zip :: "att_local \<Rightarrow> error + unit" where
  "log_zip a = (case a of Att_obj x \<Rightarrow> Inr () | Att_val v \<Rightarrow> Inl (AttributeError ''resource''))"

section \<open>\<^verbatim>\<open>process_request\<close>: lines 192 to 340\<close>

text \<open>
  The loop of lines 193 to 202.  \<open>bound\<close> holds the loop's variables \<^verbatim>\<open>zipfile\<close> and
  \<^verbatim>\<open>element\<close>, unbound (\<open>None\<close>) before the first iteration.  A \<^verbatim>\<open>KeyError\<close> of
  \<^verbatim>\<open>zipfile.open\<close> becomes \<^verbatim>\<open>ResourceNotFound\<close>.
\<close>

fun open_elements ::
  "string \<Rightarrow> fileobj \<Rightarrow> (zipfile \<times> string) option \<Rightarrow> string list
     \<Rightarrow> error + fileobj \<times> (zipfile \<times> string) option" where
  "open_elements name fileobj bound [] = Inr (fileobj, bound)"
| "open_elements name fileobj bound (element # rest) =
     (case ZipFile fileobj of
        Inl err \<Rightarrow> Inl err
      | Inr zipfile \<Rightarrow>
          (case zip_open zipfile element of
             Inl (KeyError k) \<Rightarrow> Inl (not_in_zip name)
           | Inl err \<Rightarrow> Inl err
           | Inr f \<Rightarrow> open_elements name f (Some (zipfile, element)) rest))"

text \<open>
  Lines 192 to 205.  \<^verbatim>\<open>web_context(req, r)\<close> is represented by its resource: \<open>r\<close> itself,
  or the empty \<^verbatim>\<open>Resource(None)\<close> of \<^verbatim>\<open>web_context(req)\<close>.
\<close>

definition traverse ::
  "string \<Rightarrow> fileobj \<Rightarrow> pyval \<Rightarrow> string option
     \<Rightarrow> error + fileobj \<times> (zipfile \<times> string) option \<times> resource" where
  "traverse name fileobj resource rv =
     (if name \<noteq> [] then
        (case open_elements name fileobj None (elements name) of
           Inl err \<Rightarrow> Inl err
         | Inr (f, bound) \<Rightarrow>
             (case resource of
                PRes r \<Rightarrow> Inr (f, bound, child r ''zip'' name rv)
              | _ \<Rightarrow> Inl (AttributeError ''child'')))
      else Inr (fileobj, None, Resource None None None None))"

text \<open>The state after line 205.\<close>

record located =
  l_source :: source
  l_rev :: "string option"
  l_name :: string
  l_fileobj :: fileobj
  l_bound :: "(zipfile \<times> string) option"
  l_context :: resource

definition locate :: "env \<Rightarrow> request \<Rightarrow> pyval \<Rightarrow> pyval \<Rightarrow> pyval \<Rightarrow> error + located" where
  "locate e req attachment browser resource =
     (case normal_rev req of
        Inl err \<Rightarrow> Inl err
      | Inr rv \<Rightarrow>
          (case open_source e req attachment browser rv of
             Inl err \<Rightarrow> Inl err
           | Inr src \<Rightarrow>
               (case inner_name req of
                  Inl err \<Rightarrow> Inl err
                | Inr name \<Rightarrow>
                    (case log_zip (s_attachment src) of
                       Inl err \<Rightarrow> Inl err
                     | Inr u \<Rightarrow>
                         (case traverse name (s_fileobj src) resource rv of
                            Inl err \<Rightarrow> Inl err
                          | Inr (f, bound, ctx) \<Rightarrow>
                              Inr \<lparr>l_source = src, l_rev = rv, l_name = name, l_fileobj = f,
                                   l_bound = bound, l_context = ctx\<rparr>)))))"

text \<open>
  Lines 207 to 227, the listing for an XMLHttpRequest.  The dictionary is built in the
  order written: \<^verbatim>\<open>reponame\<close> is read first, then \<^verbatim>\<open>node\<close>.  At line 217
  \<^verbatim>\<open>req.args['path']\<close> is \<^verbatim>\<open>None\<close> or a string (line 188 has sliced it).
\<close>

record dir_entry =
  e_name :: string
  e_kind :: string
  e_content_length :: nat
  e_path :: string
  e_raw_href :: "string option"
  e_created_rev :: string

record dir_data =
  d_reponame :: string
  d_stickyrev :: string
  d_display_rev :: "string \<Rightarrow> string"
  d_entries :: "dir_entry list"
  d_changes :: "(string \<times> pyval) list"

definition dir_entries :: "node \<Rightarrow> string \<Rightarrow> string \<Rightarrow> zipfile \<Rightarrow> dir_entry list" where
  "dir_entries nd path arg_path z =
     map (\<lambda>info. \<lparr>e_name = filename info, e_kind = kind nd, e_content_length = file_size info,
                  e_path = path @ arg_path @ ''!/'' @ filename info, e_raw_href = None,
                  e_created_rev = created_rev nd\<rparr>)
         (filter (\<lambda>info. \<not> ends_with_slash (filename info)) (infolist z))"

definition listing :: "request \<Rightarrow> located \<Rightarrow> error + dir_data" where
  "listing req st =
     (case ZipFile (l_fileobj st) of
        Inl err \<Rightarrow> Inl err
      | Inr z \<Rightarrow>
          (case s_repo (l_source st) of
             None \<Rightarrow> Inl (UnboundLocalError ''reponame'')
           | Some (reponame, repos, path) \<Rightarrow>
               (case s_node (l_source st) of
                  None \<Rightarrow> Inl (UnboundLocalError ''node'')
                | Some nd \<Rightarrow>
                    Inr \<lparr>d_reponame = reponame, d_stickyrev = created_rev nd,
                         d_display_rev = (\<lambda>x. x),
                         d_entries =
                           dir_entries nd path
                             (case args_get req ''path'' of PStr s \<Rightarrow> s | _ \<Rightarrow> []) z,
                         d_changes = [(created_rev nd, PNone)]\<rparr>)))"

text \<open>
  Lines 229 to 236: \<^verbatim>\<open>element\<close> and \<^verbatim>\<open>zipfile\<close> are the loop's last; with no iteration
  they are unbound.
\<close>

definition entry_info :: "located \<Rightarrow> error + zipinfo" where
  "entry_info st =
     (case l_bound st of
        None \<Rightarrow> Inl (UnboundLocalError ''element'')
      | Some (zipfile, element) \<Rightarrow>
          (case getinfo zipfile element of
             Inl (KeyError k) \<Rightarrow> Inl (not_in_zip (l_name st))
           | Inl err \<Rightarrow> Inl err
           | Inr zi \<Rightarrow> Inr zi))"

text \<open>Lines 240 to 245; \<^verbatim>\<open>fileobj.peek(512)\<close> is the first 512 bytes at most.\<close>

definition sniff :: "env \<Rightarrow> string \<Rightarrow> fileobj \<Rightarrow> string option" where
  "sniff e name f =
     (let str_data = take 512 (data f) in
      case get_mimetype e name str_data of
        None \<Rightarrow> None
      | Some m \<Rightarrow>
          if m \<noteq> [] \<and> \<not> contains ''charset='' m
          then Some (m @ ''; charset='' @ get_charset e str_data m)
          else Some m)"

text \<open>Lines 321 to 340, the raw response.\<close>

definition raw_response ::
  "env \<Rightarrow> request \<Rightarrow> fileobj \<Rightarrow> zipinfo \<Rightarrow> string option \<Rightarrow> error \<times> request" where
  "raw_response e req f zi mime_type =
     (case datetime (date_time zi) of
        Inl err \<Rightarrow> (err, req)
      | Inr d \<Rightarrow>
          (let last_modified = http_date e d in
           if Some last_modified = get_header req ''If-Modified-Since'' then
             (RequestDone,
              req\<lparr>status := Some 304,
                  out_headers := out_headers req @ [(''Content-Length'', HInt 0)],
                  headers_ended := True\<rparr>)
           else
             (RequestDone,
              req\<lparr>status := Some 200,
                  out_headers := out_headers req
                    @ (if \<not> render_unsafe_content e
                       then [(''Content-Disposition'', HStr ''attachment'')] else [])
                    @ (case mime_type of
                         None \<Rightarrow> []
                       | Some m \<Rightarrow> if m \<noteq> [] then [(''Content-Type'', HStr m)] else [])
                    @ [(''Content-Length'', HInt (file_size zi)),
                       (''Last-Modified'', HStr last_modified)],
                  headers_ended := True,
                  response := Some (f, 4096)\<rparr>)))"

text \<open>Lines 249 to 317, the two templated pages.\<close>

record zip_attachment =
  za_description :: string
  za_size :: nat
  za_date :: string
  za_author :: string
  za_ipnr :: "string option"
  za_filename :: "string option"
  za_parent_realm :: "string option"
  za_parent_id :: "string option"
  za_parent_resource :: resource

record browser_data =
  b_size :: "nat option"
  b_repos :: repos
  b_path_links :: "(string \<times> string) list"
  b_changeset :: string
  b_preview :: string
  b_reponame :: string
  b_stickyrev :: "string option"
  b_created_rev :: "string option"
  b_created_path :: string
  b_dir :: bool
  b_context :: resource

datatype outcome =
    Delegated module
  | Dir_entries_html dir_data
  | Attachment_html string zip_attachment
  | Browser_html browser_data

definition ZipAttachment :: "attachment \<Rightarrow> resource \<Rightarrow> error + zip_attachment" where
  "ZipAttachment a r =
     (case parent r of
        None \<Rightarrow> Inl (AttributeError ''realm'')
      | Some p \<Rightarrow>
          Inr \<lparr>za_description = att_description a, za_size = att_size a, za_date = att_date a,
               za_author = att_author a, za_ipnr = att_ipnr a, za_filename = res_id r,
               za_parent_realm = realm p, za_parent_id = res_id p, za_parent_resource = p\<rparr>)"

definition browser_page ::
  "env \<Rightarrow> request \<Rightarrow> located \<Rightarrow> string \<Rightarrow> string \<Rightarrow> error + browser_data" where
  "browser_page e req st hr preview =
     (case s_repo (l_source st) of
        None \<Rightarrow> Inl (UnboundLocalError ''reponame'')
      | Some (reponame, repos, path) \<Rightarrow>
          (case s_node (l_source st) of
             None \<Rightarrow> Inl (UnboundLocalError ''node'')
           | Some nd \<Rightarrow>
               (case repos of
                  None \<Rightarrow> Inl (AttributeError ''get_changeset'')
                | Some rp \<Rightarrow>
                    Inr \<lparr>b_size = content_length nd, b_repos = rp,
                         b_path_links =
                           get_path_links e (req_href req) reponame path (l_rev st)
                           @ [(''!'' @ l_name st,
                               req_href req [''zip'', hr] [''rev'' \<mapsto> of_opt (l_rev st)])],
                         b_changeset = get_changeset e rp (created_rev nd),
                         b_preview = preview, b_reponame = reponame,
                         b_stickyrev = l_rev st, b_created_rev = l_rev st,
                         b_created_path = path, b_dir = False, b_context = l_context st\<rparr>)))"

definition templated ::
  "env \<Rightarrow> request \<Rightarrow> pyval \<Rightarrow> pyval \<Rightarrow> located \<Rightarrow> zipinfo \<Rightarrow> string option
     \<Rightarrow> (error + outcome) \<times> request" where
  "templated e req browser resource st zi mime_type =
     (case resource of
        PRes r \<Rightarrow>
          (let hr = unicode_unquote e (trac_get_resource_url e r (Href_empty e) Map.empty)
                    @ ''!/'' @ l_name st;
               rawurl = req_href req [''raw-zip'', hr] [''rev'' \<mapsto> of_opt (l_rev st)];
               req1 = req\<lparr>stylesheets := stylesheets req @ [''common/css/code.css''],
                          links := links req @ [(''alternate'', rawurl, ''Original Format'', mime_type)]\<rparr>;
               preview = preview_data e (PRes (l_context st)) (l_fileobj st) (file_size zi)
                           mime_type (l_name st) rawurl
           in case s_attachment (l_source st) of
                Att_obj a \<Rightarrow>
                  (case ZipAttachment a (l_context st) of
                     Inl err \<Rightarrow> (Inl err, req1)
                   | Inr za \<Rightarrow> (Inr (Attachment_html preview za), req1))
              | Att_val v \<Rightarrow>
                  if truthy browser then
                    (case browser_page e req1 st hr preview of
                       Inl err \<Rightarrow> (Inl err, req1)
                     | Inr d \<Rightarrow>
                         (Inr (Browser_html d),
                          req1\<lparr>stylesheets := stylesheets req1 @ [''common/css/browser.css'']\<rparr>))
                  else
                    (case raw_response e req1 (l_fileobj st) zi mime_type of
                       (err, req2) \<Rightarrow> (Inl err, req2)))
      | _ \<Rightarrow> (Inl (AttributeError ''realm''), req))"

text \<open>Lines 207 to 340.\<close>

definition respond ::
  "env \<Rightarrow> request \<Rightarrow> pyval \<Rightarrow> pyval \<Rightarrow> bool \<Rightarrow> located \<Rightarrow> (error + outcome) \<times> request" where
  "respond e req browser resource xhr st =
     (if xhr then
        (case listing req st of
           Inl err \<Rightarrow> (Inl err, req)
         | Inr d \<Rightarrow> (Inr (Dir_entries_html d), req))
      else
        (case entry_info st of
           Inl err \<Rightarrow> (Inl err, req)
         | Inr zi \<Rightarrow>
             (let mime_type = sniff e (l_name st) (l_fileobj st) in
              case args_item req ''format'' of
                Inl err \<Rightarrow> (Inl err, req)
              | Inr fmt \<Rightarrow>
                  if fmt \<noteq> PStr ''raw-'' then templated e req browser resource st zi mime_type
                  else (case raw_response e req (l_fileobj st) zi mime_type of
                          (err, req') \<Rightarrow> (Inl err, req')))))"

text \<open>
  \<^verbatim>\<open>process_request\<close>, lines 152 to 340.  \<^verbatim>\<open>max_size\<close> of line 153 is not used.  The
  result pairs what the method returns or raises with the request as the method leaves it.
\<close>

definition process_request :: "env \<Rightarrow> request \<Rightarrow> (error + outcome) \<times> request" where
  "process_request e req =
     (let attachment = args_get req ''attachment'';
          browser = args_get req ''browser'';
          resource = py_or attachment browser;
          xhr = (get_header req ''X-Requested-With'' = Some ''XMLHttpRequest'')
      in case args_item req ''path'' of
           Inl err \<Rightarrow> (Inl err, req)
         | Inr p \<Rightarrow>
             if \<not> truthy p \<and> \<not> xhr then
               (case delegate req resource browser of
                  (Inl err, req') \<Rightarrow> (Inl err, req')
                | (Inr m, req') \<Rightarrow> (Inr (Delegated m), req'))
             else
               (case locate e req attachment browser resource of
                  Inl err \<Rightarrow> (Inl err, req)
                | Inr st \<Rightarrow> respond e req browser resource xhr st))"

section \<open>Registration and resource URLs: theorems\<close>

text \<open>
  Claim C6.  The component declares the four advertised interfaces; its realms are
  exactly \<^verbatim>\<open>zip\<close> and \<^verbatim>\<open>raw-zip\<close>; the quality ratio is 8, a positive number, for the two
  ZIP mimetypes and 0 for every other one; the link resolvers are exactly \<^verbatim>\<open>raw-zip\<close>
  and \<^verbatim>\<open>zip\<close>, both bound to \<^verbatim>\<open>_format_link\<close>.
\<close>

theorem registers_four_roles:
  "{IResourceManager, IHTMLPreviewRenderer, IRequestHandler, IWikiSyntaxProvider} \<subseteq> set implements
   \<and> get_resource_realms = [''zip'', ''raw-zip'']
   \<and> get_quality_ratio ''application/zip'' = 8
   \<and> get_quality_ratio ''application/x-zip-compressed'' = 8
   \<and> 0 < get_quality_ratio ''application/zip''
   \<and> get_quality_ratio m =
       (if m = ''application/zip'' \<or> m = ''application/x-zip-compressed'' then 8 else 0)
   \<and> map fst (get_link_resolvers e) = [''raw-zip'', ''zip'']
   \<and> map snd (get_link_resolvers e) = [format_link e, format_link e]"
  by (simp add: implements_def get_resource_realms_def get_quality_ratio_def
        get_link_resolvers_def)

text \<open>
  Claim C8.  A resource without a parent has no URL.  With a parent \<open>p\<close>, the URL is
  built by the given \<open>href\<close> from the prefix and the unquoted URL of \<open>p\<close> (version
  cleared) followed by \<^verbatim>\<open>!/\<close> and the id; the prefix is \<^verbatim>\<open>zip\<close> and the keyword
  arguments are forwarded unchanged, except that with \<^verbatim>\<open>format='raw'\<close> the prefix is
  \<^verbatim>\<open>raw-zip\<close> and the \<^verbatim>\<open>format\<close> key is removed from what is forwarded.
\<close>

theorem get_resource_url_prefix:
  "(parent r = None \<longrightarrow> get_resource_url e r hr kw = None)
   \<and> (\<forall>p. parent r = Some p \<longrightarrow>
        (let u = unicode_unquote e (trac_get_resource_url e (without_version p) (Href_empty e) Map.empty)
                 @ ''!/'' @ (case res_id r of None \<Rightarrow> [] | Some i \<Rightarrow> i)
         in (kw ''format'' \<noteq> Some (PStr ''raw'') \<longrightarrow>
               get_resource_url e r hr kw = Some (hr [''zip'', u] kw))
          \<and> (kw ''format'' = Some (PStr ''raw'') \<longrightarrow>
               get_resource_url e r hr kw = Some (hr [''raw-zip'', u] (kw(''format'' := None)))
               \<and> ''format'' \<notin> dom (kw(''format'' := None)))))"
  by (simp add: get_resource_url_def Let_def)

text \<open>
  Claim C9.  When the constructor of the parent attachment raises
  \<^verbatim>\<open>ResourceNotFound\<close>, \<^verbatim>\<open>resource_exists\<close> returns \<^verbatim>\<open>False\<close>; when the constructor
  returns an attachment, the result is whether its file path exists.
\<close>

theorem resource_exists_total:
  "(Attachment e (case parent r of None \<Rightarrow> PNone | Some p \<Rightarrow> PRes p) = Inl (ResourceNotFound m t)
      \<longrightarrow> resource_exists e r = Inr False)
   \<and> (Attachment e (case parent r of None \<Rightarrow> PNone | Some p \<Rightarrow> PRes p) = Inr a
      \<longrightarrow> resource_exists e r = Inr (os_path_exists e (att_path a)))"
  by (simp add: resource_exists_def)

end
